theory Spec2Isabelle
  imports Complex_Main
begin

section \<open>Floating-point results\<close>

text \<open>
  Samples, limits, durations and throughputs are Python floats; they are modelled as
  real numbers, so rounding and overflow are idealised away. What is kept is the one
  place where the arithmetic of the program leaves the finite numbers: a division by a
  zero standard deviation and the quantile function at the ends of its domain. A
  result of the statistics is therefore a finite real, an infinity or not-a-number.
\<close>

datatype float64 = Fin real | PosInf | NegInf | NaN

text \<open>
  Division of two \<open>numpy.float64\<close> values. numpy does not raise on a zero divisor: it
  warns and returns an infinity of the sign of the numerator, or not-a-number for
  \<open>0 / 0\<close>. The only divisor of the program is \<open>3 * std\<close>, which is never negative,
  so a zero divisor here is the positive zero.
\<close>

definition np_div :: "real \<Rightarrow> real \<Rightarrow> float64" where
  "np_div a b =
     (if b \<noteq> 0 then Fin (a / b)
      else if 0 < a then PosInf
      else if a < 0 then NegInf
      else NaN)"

text \<open>The comparison \<open>a < b\<close> of two floats: every comparison with not-a-number is false.\<close>

fun float_less :: "float64 \<Rightarrow> float64 \<Rightarrow> bool" where
  "float_less (Fin x) (Fin y) = (x < y)"
| "float_less (Fin x) PosInf = True"
| "float_less NegInf (Fin y) = True"
| "float_less NegInf PosInf = True"
| "float_less _ _ = False"

text \<open>
  Python's builtin \<open>min(a, b)\<close> keeps its first argument unless the second is strictly
  smaller.
\<close>

definition py_min :: "float64 \<Rightarrow> float64 \<Rightarrow> float64" where
  "py_min a b = (if float_less b a then b else a)"

text \<open>The sum \<open>a + c\<close> of a float and a finite constant.\<close>

fun float_add :: "float64 \<Rightarrow> real \<Rightarrow> float64" where
  "float_add (Fin x) c = Fin (x + c)"
| "float_add PosInf c = PosInf"
| "float_add NegInf c = NegInf"
| "float_add NaN c = NaN"

text \<open>The comparison \<open>a <= b\<close> of two floats, in which the claims about order are stated.\<close>

definition float_le :: "float64 \<Rightarrow> float64 \<Rightarrow> bool" where
  "float_le a b = (float_less a b \<or> (a = b \<and> a \<noteq> NaN))"

section \<open>SixSigmaAnalyzer\<close>

text \<open>
  \<open>numpy.mean\<close> and \<open>numpy.std\<close> of a one-dimensional array. \<open>numpy.std\<close> is the
  population standard deviation: the square root of the mean of the squared absolute
  deviations from the mean (divisor \<open>N\<close>). Every call of the program is on an array
  with at least one element.
\<close>

definition np_mean :: "real list \<Rightarrow> real" where
  "np_mean xs = sum_list xs / real (length xs)"

definition np_std :: "real list \<Rightarrow> real" where
  "np_std xs = sqrt (np_mean (map (\<lambda>x. \<bar>x - np_mean xs\<bar> ^ 2) xs))"

definition calculate_cpk :: "real list \<Rightarrow> real \<Rightarrow> real \<Rightarrow> float64" where
  "calculate_cpk data usl lsl =
     (if length data < 2 then Fin 0
      else
        let std = np_std data;
            mean = np_mean data
        in py_min (np_div (usl - mean) (3 * std)) (np_div (mean - lsl) (3 * std)))"

definition control_chart :: "real list \<Rightarrow> (string \<rightharpoonup> real)" where
  "control_chart data =
     (if length data < 2 then Map.empty
      else
        let std = np_std data;
            mean = np_mean data
        in [''upper_control_limit'' \<mapsto> mean + 3 * std,
            ''lower_control_limit'' \<mapsto> mean - 3 * std,
            ''mean'' \<mapsto> mean])"

text \<open>
  \<open>calculate_sigma_level\<close> calls \<open>scipy.stats.norm.ppf\<close>, the quantile function of the
  standard normal distribution, which is library code: it is the parameter \<open>ppf\<close>.
  The count of defects is \<open>sum(1 for x in data if x < 10)\<close>, and the rate is Python's true
  division of two integers.
\<close>

definition calculate_sigma_level :: "(real \<Rightarrow> float64) \<Rightarrow> real list \<Rightarrow> float64" where
  "calculate_sigma_level ppf data =
     (if length data < 2 then Fin 0
      else
        let defects = (\<Sum>x \<leftarrow> filter (\<lambda>x. x < 10) data. (1::int));
            defect_rate = real_of_int defects / real (length data)
        in if defect_rate \<ge> 1 then Fin 0
           else float_add (ppf (1 - defect_rate)) (3 / 2))"

text \<open>
  The local variables \<open>defects\<close> and \<open>defect_rate\<close> of \<open>calculate_sigma_level\<close>, as
  functions of the samples.
\<close>

definition defects :: "real list \<Rightarrow> int" where
  "defects data = (\<Sum>x \<leftarrow> filter (\<lambda>x. x < 10) data. 1)"

definition defect_rate :: "real list \<Rightarrow> real" where
  "defect_rate data = real_of_int (defects data) / real (length data)"

section \<open>Transfer records and the session\<close>

record TransferMetrics =
  filename :: string
  size_bytes :: int
  duration_sec :: real
  throughput_mbps :: real
  sha256_checksum :: string
  timestamp :: string

text \<open>Whatever the \<open>try\<close> block of an attempt can raise.\<close>

datatype exn = LocalFileError | TransportError | IntegrityError | ZeroDivisionError

text \<open>
  What the outside world does during one attempt: the results of the calls that leave
  the program, and the time each of them takes. \<open>None\<close> is a call that raises.
\<close>

record attempt_io =
  local_sha256 :: "string option"
  hash_secs :: real
  put_ok :: bool
  put_secs :: real
  remote_sha256 :: "string option"
  remote_secs :: real
  st_size :: "int option"
  strftime_now :: string

text \<open>The effects of a call that a caller can observe besides the record list.\<close>

datatype effect = Put string string | LogInfo | LogError int int | LogCritical | Sleep int

text \<open>
  The session: \<open>self.metrics\<close>, the wall clock that \<open>time.time()\<close> reads, and the
  effects so far, oldest first.
\<close>

record session =
  metrics :: "TransferMetrics list"
  clock :: real
  effects :: "effect list"

section \<open>secure_transfer\<close>

text \<open>
  The \<open>try\<close> block of one attempt, statement by statement. The clock is read first,
  then the local file is hashed, then \<open>put\<close> runs, then the clock is read again.
  \<open>Inl e\<close> is the exception the block raises, \<open>Inr ()\<close> is reaching \<open>return True\<close>.
  Python's float division raises \<open>ZeroDivisionError\<close> on a zero divisor.
\<close>

definition attempt_transfer ::
  "attempt_io \<Rightarrow> string \<Rightarrow> string \<Rightarrow> bool \<Rightarrow> session \<Rightarrow> (exn + unit) \<times> session" where
  "attempt_transfer io local_path remote_path verify s =
     (let start_time = clock s;
          s1 = s\<lparr>clock := clock s + hash_secs io\<rparr>
      in case local_sha256 io of
           None \<Rightarrow> (Inl LocalFileError, s1)
         | Some local_hash \<Rightarrow>
             let s2 = s1\<lparr>clock := clock s1 + put_secs io,
                         effects := effects s1 @ [Put local_path remote_path]\<rparr>
             in if \<not> put_ok io then (Inl TransportError, s2)
                else
                  let transfer_time = clock s2 - start_time;
                      s3 = (if verify then s2\<lparr>clock := clock s2 + remote_secs io\<rparr> else s2)
                  in if verify \<and> remote_sha256 io = None then (Inl TransportError, s3)
                     else if verify \<and> Some local_hash \<noteq> remote_sha256 io
                       then (Inl IntegrityError, s3)
                     else
                       (case st_size io of
                          None \<Rightarrow> (Inl LocalFileError, s3)
                        | Some file_size \<Rightarrow>
                            if transfer_time * 1000000 = 0 then (Inl ZeroDivisionError, s3)
                            else
                              let m = \<lparr>filename = local_path,
                                       size_bytes = file_size,
                                       duration_sec = transfer_time,
                                       throughput_mbps =
                                         real_of_int (file_size * 8) / (transfer_time * 1000000),
                                       sha256_checksum = local_hash,
                                       timestamp = strftime_now io\<rparr>
                              in (Inr (),
                                  s3\<lparr>metrics := metrics s3 @ [m],
                                     effects := effects s3 @ [LogInfo]\<rparr>)))"

text \<open>
  The \<open>for\<close> loop over the attempt numbers still to run. The result is Python's:
  \<open>Some True\<close>, \<open>Some False\<close>, or \<open>None\<close> when the loop runs off its end and the
  function returns nothing.
\<close>

fun transfer_loop ::
  "(int \<Rightarrow> attempt_io) \<Rightarrow> string \<Rightarrow> string \<Rightarrow> bool \<Rightarrow> int \<Rightarrow> int list \<Rightarrow> session
     \<Rightarrow> bool option \<times> session" where
  "transfer_loop io local_path remote_path verify retries [] s = (None, s)"
| "transfer_loop io local_path remote_path verify retries (attempt # rest) s =
     (case attempt_transfer (io attempt) local_path remote_path verify s of
        (Inr _, s') \<Rightarrow> (Some True, s')
      | (Inl e, s') \<Rightarrow>
          let s'' = s'\<lparr>effects := effects s' @ [LogError attempt retries]\<rparr>
          in if attempt = retries
             then (Some False, s''\<lparr>effects := effects s'' @ [LogCritical]\<rparr>)
             else transfer_loop io local_path remote_path verify retries rest
                    (s''\<lparr>clock := clock s'' + 2 ^ nat attempt,
                        effects := effects s'' @ [Sleep (2 ^ nat attempt)]\<rparr>))"

text \<open>\<open>range(1, retries + 1)\<close> is the list \<open>[1..retries]\<close>, empty when \<open>retries < 1\<close>.\<close>

definition secure_transfer ::
  "(int \<Rightarrow> attempt_io) \<Rightarrow> string \<Rightarrow> string \<Rightarrow> bool \<Rightarrow> int \<Rightarrow> session
     \<Rightarrow> bool option \<times> session" where
  "secure_transfer io local_path remote_path verify retries s =
     transfer_loop io local_path remote_path verify retries [1..retries] s"

text \<open>What a trace says about retrying: the failed attempts and the sleeps, in order.\<close>

fun retry_events :: "effect list \<Rightarrow> effect list" where
  "retry_events [] = []"
| "retry_events (LogError a r # es) = LogError a r # retry_events es"
| "retry_events (Sleep d # es) = Sleep d # retry_events es"
| "retry_events (LogCritical # es) = LogCritical # retry_events es"
| "retry_events (_ # es) = retry_events es"

fun sleeps :: "effect list \<Rightarrow> int list" where
  "sleeps [] = []"
| "sleeps (Sleep d # es) = d # sleeps es"
| "sleeps (_ # es) = sleeps es"

fun failed_attempts :: "effect list \<Rightarrow> int list" where
  "failed_attempts [] = []"
| "failed_attempts (LogError a r # es) = a # failed_attempts es"
| "failed_attempts (_ # es) = failed_attempts es"

section \<open>generate_quality_report\<close>

text \<open>The values a report is made of; a dictionary keeps its keys in insertion order.\<close>

datatype pyval =
    PyStr string
  | PyInt int
  | PyFloat float64
  | PyList "pyval list"
  | PyDict "(string \<times> pyval) list"

definition vars :: "TransferMetrics \<Rightarrow> pyval" where
  "vars m =
     PyDict [(''filename'', PyStr (filename m)),
             (''size_bytes'', PyInt (size_bytes m)),
             (''duration_sec'', PyFloat (Fin (duration_sec m))),
             (''throughput_mbps'', PyFloat (Fin (throughput_mbps m))),
             (''sha256_checksum'', PyStr (sha256_checksum m)),
             (''timestamp'', PyStr (timestamp m))]"

definition generate_quality_report :: "(real \<Rightarrow> float64) \<Rightarrow> session \<Rightarrow> pyval" where
  "generate_quality_report ppf s =
     (let throughputs = map throughput_mbps (metrics s)
      in if throughputs = [] then PyDict []
         else
           PyDict [(''throughput_stats'',
                    PyDict [(''mean'', PyFloat (Fin (np_mean throughputs))),
                            (''std_dev'', PyFloat (Fin (np_std throughputs))),
                            (''cpk'', PyFloat (calculate_cpk throughputs 100 10)),
                            (''sigma_level'', PyFloat (calculate_sigma_level ppf throughputs))]),
                   (''transfer_metrics'', PyList (map vars (metrics s)))])"

section \<open>Scenarios\<close>

text \<open>
  Concrete sessions and outside worlds on which the theorems below are exercised: a
  session with no record yet, an attempt in which every call succeeds (hashing and
  \<open>put\<close> take one second each, the file has 1,000,000 bytes), a channel whose \<open>put\<close>
  always raises, and one whose \<open>put\<close> raises on the first attempt only.
\<close>

definition fresh_session :: session where
  "fresh_session = \<lparr>metrics = [], clock = 0, effects = []\<rparr>"

definition good_attempt :: attempt_io where
  "good_attempt =
     \<lparr>local_sha256 = Some ''ab12'', hash_secs = 1, put_ok = True, put_secs = 1,
      remote_sha256 = Some ''ab12'', remote_secs = 1, st_size = Some 1000000,
      strftime_now = ''2024-01-01 00:00:00''\<rparr>"

definition dead_channel :: "int \<Rightarrow> attempt_io" where
  "dead_channel k = good_attempt\<lparr>put_ok := False\<rparr>"

definition second_try_channel :: "int \<Rightarrow> attempt_io" where
  "second_try_channel k = (if k < 2 then good_attempt\<lparr>put_ok := False\<rparr> else good_attempt)"

text \<open>A session that holds the one record of a 1,000,000-byte transfer that took two seconds.\<close>

definition one_record_session :: session where
  "one_record_session =
     \<lparr>metrics = [\<lparr>filename = ''a'', size_bytes = 1000000, duration_sec = 2,
                  throughput_mbps = 4, sha256_checksum = ''ab12'',
                  timestamp = ''2024-01-01 00:00:00''\<rparr>],
      clock = 7,
      effects = []\<rparr>"

text \<open>
  A quantile function to put in the place of \<open>ppf\<close>: linear inside \<open>(0, 1)\<close>, where it
  agrees with the standard normal quantile at 0.4, 0.5 and 0.6 to seven decimals, and
  with scipy's conventions elsewhere (the infinities at 0 and 1, not-a-number outside
  \<open>[0, 1]\<close>).
\<close>

definition linear_ppf :: "real \<Rightarrow> float64" where
  "linear_ppf q =
     (if q < 0 \<or> 1 < q then NaN
      else if q = 0 then NegInf
      else if q = 1 then PosInf
      else Fin (2533471 / 1000000 * (q - 1 / 2)))"

section \<open>One attempt and the loop over the attempts\<close>

lemma retry_events_append:
  "retry_events (xs @ ys) = retry_events xs @ retry_events ys"
  by (induction xs rule: retry_events.induct) simp_all

lemma sleeps_retry_events: "sleeps (retry_events es) = sleeps es"
  by (induction es rule: retry_events.induct) simp_all

lemma failed_attempts_retry_events: "failed_attempts (retry_events es) = failed_attempts es"
  by (induction es rule: retry_events.induct) simp_all

lemma sleeps_append: "sleeps (xs @ ys) = sleeps xs @ sleeps ys"
  by (induction xs rule: sleeps.induct) simp_all

lemma failed_attempts_append:
  "failed_attempts (xs @ ys) = failed_attempts xs @ failed_attempts ys"
  by (induction xs rule: failed_attempts.induct) simp_all

lemma sleeps_rounds:
  "sleeps (concat (map (\<lambda>j. [LogError j N, Sleep (f j)]) js)) = map f js"
  by (induction js) simp_all

lemma failed_attempts_rounds:
  "failed_attempts (concat (map (\<lambda>j. [LogError j N, Sleep (f j)]) js)) = js"
  by (induction js) simp_all

lemma attempt_transfer_Inl:
  assumes "attempt_transfer io lp rp v s = (Inl e, s')"
  shows "metrics s' = metrics s"
    and "retry_events (effects s') = retry_events (effects s)"
  using assms
  by (auto simp: attempt_transfer_def Let_def retry_events_append
      split: option.splits if_splits)

lemma attempt_transfer_Inr:
  assumes "attempt_transfer io lp rp v s = (Inr u, s')"
  shows "\<exists>h n. local_sha256 io = Some h \<and> st_size io = Some n \<and> put_ok io \<and>
           (v \<longrightarrow> remote_sha256 io = Some h) \<and>
           hash_secs io + put_secs io \<noteq> 0 \<and>
           metrics s' = metrics s @
             [\<lparr>filename = lp, size_bytes = n,
               duration_sec = hash_secs io + put_secs io,
               throughput_mbps = real_of_int (n * 8) / ((hash_secs io + put_secs io) * 1000000),
               sha256_checksum = h, timestamp = strftime_now io\<rparr>]"
    and "retry_events (effects s') = retry_events (effects s)"
  using assms
  by (auto simp: attempt_transfer_def Let_def retry_events_append
      split: option.splits if_splits)

lemma attempt_transfer_outcome:
  "fst (attempt_transfer io lp rp v s) = fst (attempt_transfer io lp rp v t)"
  by (auto simp: attempt_transfer_def Let_def split: option.splits if_splits)

lemma transfer_loop_metrics:
  "transfer_loop io lp rp v N as s = (r, s') \<Longrightarrow>
     (r = Some True \<longrightarrow> (\<exists>m. metrics s' = metrics s @ [m])) \<and>
     (r \<noteq> Some True \<longrightarrow> metrics s' = metrics s)"
proof (induction as arbitrary: s)
  case Nil
  then show ?case by simp
next
  case (Cons a as)
  obtain o1 s1 where att: "attempt_transfer (io a) lp rp v s = (o1, s1)"
    by (cases "attempt_transfer (io a) lp rp v s")
  show ?case
  proof (cases o1)
    case (Inr u)
    with att Cons.prems have "r = Some True" "s' = s1" by simp_all
    moreover from att Inr obtain m where "metrics s1 = metrics s @ [m]"
      using attempt_transfer_Inr(1) by blast
    ultimately show ?thesis by simp
  next
    case (Inl e)
    with att have m1: "metrics s1 = metrics s"
      using attempt_transfer_Inl(1) by blast
    show ?thesis
    proof (cases "a = N")
      case True
      with att Inl Cons.prems m1 show ?thesis by (auto simp: Let_def)
    next
      case False
      with att Inl Cons.prems Cons.IH m1 show ?thesis
        by (fastforce simp: Let_def)
    qed
  qed
qed

lemma transfer_loop_returns:
  "k \<le> N \<Longrightarrow> fst (transfer_loop io lp rp v N [k..N] s) \<noteq> None"
proof (induction "nat (N - k)" arbitrary: k s)
  case 0
  then have "k = N" by simp
  then show ?case
    by (cases "attempt_transfer (io N) lp rp v s")
       (auto simp: upto_rec1 [of N N] Let_def split: sum.splits)
next
  case (Suc n)
  then have lt: "k < N" and n: "n = nat (N - (k + 1))" and le: "k + 1 \<le> N" by simp_all
  have up: "[k..N] = k # [k + 1..N]" using lt by (simp add: upto_rec1)
  show ?case
    using Suc.hyps(1) [OF n le] lt
    by (cases "attempt_transfer (io k) lp rp v s")
       (auto simp: up Let_def split: sum.splits)
qed

lemma transfer_loop_all_fail:
  assumes "\<forall>j s. k \<le> j \<and> j \<le> N \<longrightarrow> isl (fst (attempt_transfer (io j) lp rp v s))"
  shows "k \<le> N \<Longrightarrow>
     \<exists>s'. transfer_loop io lp rp v N [k..N] s = (Some False, s') \<and>
          metrics s' = metrics s \<and>
          retry_events (effects s') =
            retry_events (effects s) @
            concat (map (\<lambda>j. [LogError j N, Sleep (2 ^ nat j)]) [k..N - 1]) @
            [LogError N N, LogCritical]"
  using assms
proof (induction "nat (N - k)" arbitrary: k s)
  case 0
  then have kN: "k = N" by simp
  obtain o1 s1 where att: "attempt_transfer (io N) lp rp v s = (o1, s1)"
    by (cases "attempt_transfer (io N) lp rp v s")
  from "0.prems"(2) kN have "isl (fst (attempt_transfer (io N) lp rp v s))" by simp
  with att have "isl o1" by simp
  then obtain e where o1: "o1 = Inl e" by (cases o1) simp_all
  from att o1 have "metrics s1 = metrics s" "retry_events (effects s1) = retry_events (effects s)"
    using attempt_transfer_Inl by blast+
  with att o1 kN show ?case
    by (simp add: upto_rec1 [of N N] Let_def retry_events_append)
next
  case (Suc n)
  then have lt: "k < N" and n: "n = nat (N - (k + 1))" and le: "k + 1 \<le> N" by simp_all
  have up: "[k..N] = k # [k + 1..N]" using lt by (simp add: upto_rec1)
  have up': "[k..N - 1] = k # [k + 1..N - 1]" using lt by (simp add: upto_rec1)
  obtain o1 s1 where att: "attempt_transfer (io k) lp rp v s = (o1, s1)"
    by (cases "attempt_transfer (io k) lp rp v s")
  from Suc.prems(2) lt have "isl (fst (attempt_transfer (io k) lp rp v s))" by simp
  with att have "isl o1" by simp
  then obtain e where o1: "o1 = Inl e" by (cases o1) simp_all
  from att o1 have m1: "metrics s1 = metrics s"
    and r1: "retry_events (effects s1) = retry_events (effects s)"
    using attempt_transfer_Inl by blast+
  let ?s2 = "s1\<lparr>effects := effects s1 @ [LogError k N]\<rparr>"
  let ?s3 = "?s2\<lparr>clock := clock ?s2 + 2 ^ nat k,
                   effects := effects ?s2 @ [Sleep (2 ^ nat k)]\<rparr>"
  have fails: "\<forall>j s. k + 1 \<le> j \<and> j \<le> N \<longrightarrow> isl (fst (attempt_transfer (io j) lp rp v s))"
    using Suc.prems(2) by auto
  from Suc.hyps(1) [OF n le fails, of ?s3]
  obtain s' where loop: "transfer_loop io lp rp v N [k + 1..N] ?s3 = (Some False, s')"
    and ms: "metrics s' = metrics ?s3"
    and rs: "retry_events (effects s') =
            retry_events (effects ?s3) @
            concat (map (\<lambda>j. [LogError j N, Sleep (2 ^ nat j)]) [k + 1..N - 1]) @
            [LogError N N, LogCritical]"
    by blast
  have "transfer_loop io lp rp v N [k..N] s = (Some False, s')"
    using att o1 lt loop by (simp add: up Let_def)
  moreover have "metrics s' = metrics s" using ms m1 by simp
  moreover have "retry_events (effects s') =
            retry_events (effects s) @
            concat (map (\<lambda>j. [LogError j N, Sleep (2 ^ nat j)]) [k..N - 1]) @
            [LogError N N, LogCritical]"
    using rs r1 by (simp add: up' retry_events_append)
  ultimately show ?case by blast
qed


lemma transfer_loop_success:
  "transfer_loop io lp rp v N [k0..N] s = (Some True, s') \<Longrightarrow>
     \<exists>k h n. k0 \<le> k \<and> k \<le> N \<and>
       (\<forall>j. k0 \<le> j \<and> j < k \<longrightarrow> isl (fst (attempt_transfer (io j) lp rp v s))) \<and>
       fst (attempt_transfer (io k) lp rp v s) = Inr () \<and>
       local_sha256 (io k) = Some h \<and> st_size (io k) = Some n \<and>
       hash_secs (io k) + put_secs (io k) \<noteq> 0 \<and>
       metrics s' = metrics s @
         [\<lparr>filename = lp, size_bytes = n,
           duration_sec = hash_secs (io k) + put_secs (io k),
           throughput_mbps =
             real_of_int (n * 8) / ((hash_secs (io k) + put_secs (io k)) * 1000000),
           sha256_checksum = h, timestamp = strftime_now (io k)\<rparr>]"
proof (induction "nat (N + 1 - k0)" arbitrary: k0 s)
  case 0
  then have "[k0..N] = []" by simp
  with "0.prems" show ?case by simp
next
  case (Suc n)
  then have le: "k0 \<le> N" and n: "n = nat (N + 1 - (k0 + 1))" by simp_all
  have up: "[k0..N] = k0 # [k0 + 1..N]" using le by (simp add: upto_rec1)
  obtain o1 s1 where att: "attempt_transfer (io k0) lp rp v s = (o1, s1)"
    by (cases "attempt_transfer (io k0) lp rp v s")
  show ?case
  proof (cases o1)
    case (Inr u)
    with att Suc.prems up have s': "s' = s1" by simp
    from attempt_transfer_Inr(1) [OF att [unfolded Inr]] s' att Inr le
    show ?thesis
      by (intro exI [of _ k0]) auto
  next
    case (Inl e)
    from att Inl have m1: "metrics s1 = metrics s"
      using attempt_transfer_Inl(1) by blast
    let ?s2 = "s1\<lparr>effects := effects s1 @ [LogError k0 N]\<rparr>"
    let ?s3 = "?s2\<lparr>clock := clock ?s2 + 2 ^ nat k0,
                     effects := effects ?s2 @ [Sleep (2 ^ nat k0)]\<rparr>"
    have ne: "k0 \<noteq> N" and loop: "transfer_loop io lp rp v N [k0 + 1..N] ?s3 = (Some True, s')"
      using att Inl Suc.prems up by (auto simp: Let_def split: if_splits)
    from Suc.hyps(1) [OF n loop]
    obtain k h m where k: "k0 + 1 \<le> k" "k \<le> N"
      and before: "\<forall>j. k0 + 1 \<le> j \<and> j < k \<longrightarrow> isl (fst (attempt_transfer (io j) lp rp v ?s3))"
      and ok: "fst (attempt_transfer (io k) lp rp v ?s3) = Inr ()"
      and io: "local_sha256 (io k) = Some h" "st_size (io k) = Some m"
              "hash_secs (io k) + put_secs (io k) \<noteq> 0"
      and ms: "metrics s' = metrics ?s3 @
         [\<lparr>filename = lp, size_bytes = m,
           duration_sec = hash_secs (io k) + put_secs (io k),
           throughput_mbps =
             real_of_int (m * 8) / ((hash_secs (io k) + put_secs (io k)) * 1000000),
           sha256_checksum = h, timestamp = strftime_now (io k)\<rparr>]"
      by blast
    have first: "isl (fst (attempt_transfer (io k0) lp rp v s))"
      using att Inl by simp
    have "\<forall>j. k0 \<le> j \<and> j < k \<longrightarrow> isl (fst (attempt_transfer (io j) lp rp v s))"
    proof (intro allI impI)
      fix j assume j: "k0 \<le> j \<and> j < k"
      show "isl (fst (attempt_transfer (io j) lp rp v s))"
      proof (cases "j = k0")
        case True
        with first show ?thesis by simp
      next
        case False
        with j before have "isl (fst (attempt_transfer (io j) lp rp v ?s3))" by simp
        then show ?thesis
          using attempt_transfer_outcome [of "io j" lp rp v s ?s3] by simp
      qed
    qed
    moreover have "fst (attempt_transfer (io k) lp rp v s) = Inr ()"
      using ok attempt_transfer_outcome [of "io k" lp rp v s ?s3] by simp
    ultimately show ?thesis
      using k io ms m1 by (intro exI [of _ k] exI [of _ h] exI [of _ m]) simp
  qed
qed

section \<open>Facts about the statistics\<close>

lemma sum_list_replicate_real:
  "sum_list (replicate n (c::real)) = real n * c"
  by (induction n) (simp_all add: algebra_simps)

lemma np_mean_replicate: "0 < n \<Longrightarrow> np_mean (replicate n c) = c"
  by (simp add: np_mean_def sum_list_replicate_real)

lemma np_std_replicate: "np_std (replicate n c) = 0"
  by (cases "n = 0") (simp_all add: np_std_def np_mean_def sum_list_replicate_real map_replicate_const)

lemma np_std_nonneg: "0 \<le> np_std xs"
  by (auto simp: np_std_def np_mean_def intro!: divide_nonneg_nonneg sum_list_nonneg)

lemma np_std_population:
  "np_std xs = sqrt ((\<Sum>x \<leftarrow> xs. (x - np_mean xs)\<^sup>2) / real (length xs))"
  by (simp add: np_std_def np_mean_def)

lemma calculate_cpk_constant:
  "2 \<le> n \<Longrightarrow> calculate_cpk (replicate n c) usl lsl \<noteq> Fin r"
  by (auto simp: calculate_cpk_def np_std_replicate np_div_def py_min_def Let_def)

lemma defects_count: "defects data = int (length (filter (\<lambda>x. x < 10) data))"
  unfolding defects_def by (induction data) simp_all

lemma defect_rate_bounds: "0 \<le> defect_rate data \<and> defect_rate data \<le> 1"
proof -
  have "length (filter (\<lambda>x. x < 10) data) \<le> length data" by simp
  then have "real (length (filter (\<lambda>x. x < 10) data)) \<le> real (length data)"
    by (simp only: of_nat_le_iff)
  then show ?thesis
    by (cases "data = []") (simp_all add: defect_rate_def defects_count divide_le_eq_1)
qed

lemma calculate_sigma_level_rate:
  "calculate_sigma_level ppf data =
     (if length data < 2 then Fin 0
      else if 1 \<le> defect_rate data then Fin 0
      else float_add (ppf (1 - defect_rate data)) (3 / 2))"
  by (simp add: calculate_sigma_level_def defect_rate_def defects_def Let_def)

lemma float_add_mono: "float_le a b \<Longrightarrow> float_le (float_add a c) (float_add b c)"
  by (cases a; cases b) (simp_all add: float_le_def)

lemma float_add_eq_Fin: "float_add a c = Fin r \<longleftrightarrow> a = Fin (r - c)"
  by (cases a) auto

lemma linear_ppf_mono:
  "0 < a \<and> a \<le> b \<and> b \<le> 1 \<Longrightarrow> float_le (linear_ppf a) (linear_ppf b)"
  by (auto simp: linear_ppf_def float_le_def)

section \<open>Records appended by a call\<close>

text \<open>
  C1. Called with \<open>retries >= 1\<close>, \<open>secure_transfer\<close> returns \<open>True\<close> or \<open>False\<close>. When
  it returns \<open>True\<close>, the record list after the call is the list before it with exactly
  one record appended; when it returns \<open>False\<close>, the record list is unchanged.
\<close>

theorem secure_transfer_records:
  assumes "1 \<le> retries"
    and "secure_transfer io local_path remote_path verify retries s = (r, s')"
  shows "(r = Some True \<or> r = Some False) \<and>
         (r = Some True \<longrightarrow> (\<exists>m. metrics s' = metrics s @ [m])) \<and>
         (r = Some False \<longrightarrow> metrics s' = metrics s)"
proof -
  from assms(2) have loop:
    "transfer_loop io local_path remote_path verify retries [1..retries] s = (r, s')"
    by (simp add: secure_transfer_def)
  from transfer_loop_returns [OF assms(1), of io local_path remote_path verify s] loop
  have "r \<noteq> None" by simp
  then have "r = Some True \<or> r = Some False" by (cases r) auto
  with transfer_loop_metrics [OF loop] show ?thesis by auto
qed

theorem secure_transfer_records_witness:
  "(1::int) \<le> 3 \<and>
   fst (secure_transfer second_try_channel ''a'' ''b'' True 3 fresh_session) = Some True \<and>
   (\<exists>m. metrics (snd (secure_transfer second_try_channel ''a'' ''b'' True 3 fresh_session)) =
          metrics fresh_session @ [m]) \<and>
   fst (secure_transfer dead_channel ''a'' ''b'' True 3 fresh_session) = Some False \<and>
   metrics (snd (secure_transfer dead_channel ''a'' ''b'' True 3 fresh_session)) =
     metrics fresh_session"
proof -
  have ok: "fst (secure_transfer second_try_channel ''a'' ''b'' True 3 fresh_session) = Some True"
    by (simp add: secure_transfer_def second_try_channel_def good_attempt_def fresh_session_def
         attempt_transfer_def Let_def upto_rec1)
  have bad: "fst (secure_transfer dead_channel ''a'' ''b'' True 3 fresh_session) = Some False"
    by (simp add: secure_transfer_def dead_channel_def good_attempt_def fresh_session_def
         attempt_transfer_def Let_def upto_rec1)
  have three: "(1::int) \<le> 3" by simp
  from secure_transfer_records [OF three prod.collapse [symmetric]] ok bad
  show ?thesis by simp
qed

section \<open>Attempts and backoff\<close>

text \<open>
  C2. With \<open>retries = N >= 1\<close> and every attempt failing, \<open>secure_transfer\<close> returns
  \<open>False\<close> after exactly the attempts \<open>1, ..., N\<close>, sleeping \<open>2 ^ k\<close> after attempt \<open>k\<close>
  for \<open>k = 1, ..., N - 1\<close> and not after attempt \<open>N\<close>; the sleeps are \<open>2, 4, ..., 2 ^ (N - 1)\<close>,
  so there are none when \<open>N = 1\<close>.
\<close>

theorem secure_transfer_backoff:
  assumes "1 \<le> N"
    and "\<forall>k s. 1 \<le> k \<and> k \<le> N \<longrightarrow>
           isl (fst (attempt_transfer (io k) local_path remote_path verify s))"
  shows "fst (secure_transfer io local_path remote_path verify N s) = Some False \<and>
         failed_attempts (effects (snd (secure_transfer io local_path remote_path verify N s))) =
           failed_attempts (effects s) @ [1..N] \<and>
         sleeps (effects (snd (secure_transfer io local_path remote_path verify N s))) =
           sleeps (effects s) @ map (\<lambda>k. 2 ^ nat k) [1..N - 1] \<and>
         retry_events (effects (snd (secure_transfer io local_path remote_path verify N s))) =
           retry_events (effects s) @
           concat (map (\<lambda>k. [LogError k N, Sleep (2 ^ nat k)]) [1..N - 1]) @
           [LogError N N, LogCritical]"
proof -
  from transfer_loop_all_fail [OF assms(2) assms(1), of s]
  obtain s' where loop: "secure_transfer io local_path remote_path verify N s = (Some False, s')"
    and ev: "retry_events (effects s') =
           retry_events (effects s) @
           concat (map (\<lambda>k. [LogError k N, Sleep (2 ^ nat k)]) [1..N - 1]) @
           [LogError N N, LogCritical]"
    by (auto simp: secure_transfer_def)
  have "sleeps (effects s') = sleeps (retry_events (effects s'))"
    by (simp add: sleeps_retry_events)
  also have "\<dots> = sleeps (effects s) @ map (\<lambda>k. 2 ^ nat k) [1..N - 1]"
    by (simp add: ev sleeps_append sleeps_rounds sleeps_retry_events)
  finally have sl: "sleeps (effects s') = sleeps (effects s) @ map (\<lambda>k. 2 ^ nat k) [1..N - 1]" .
  have up: "[1..N] = [1..N - 1] @ [N]"
    using assms(1) by (simp add: upto_rec2)
  have "failed_attempts (effects s') = failed_attempts (retry_events (effects s'))"
    by (simp add: failed_attempts_retry_events)
  also have "\<dots> = failed_attempts (effects s) @ [1..N]"
    by (simp add: ev failed_attempts_append failed_attempts_rounds failed_attempts_retry_events up)
  finally have fa: "failed_attempts (effects s') = failed_attempts (effects s) @ [1..N]" .
  from loop ev sl fa show ?thesis by simp
qed

theorem secure_transfer_backoff_witness:
  "fst (secure_transfer dead_channel ''a'' ''b'' True 4 fresh_session) = Some False \<and>
   failed_attempts (effects (snd (secure_transfer dead_channel ''a'' ''b'' True 4 fresh_session)))
     = [1, 2, 3, 4] \<and>
   sleeps (effects (snd (secure_transfer dead_channel ''a'' ''b'' True 4 fresh_session)))
     = [2, 4, 8] \<and>
   fst (secure_transfer dead_channel ''a'' ''b'' True 1 fresh_session) = Some False \<and>
   sleeps (effects (snd (secure_transfer dead_channel ''a'' ''b'' True 1 fresh_session))) = []"
proof -
  have fails: "\<forall>k s. 1 \<le> k \<and> k \<le> N \<longrightarrow>
      isl (fst (attempt_transfer (dead_channel k) ''a'' ''b'' True s))" for N
    by (simp add: dead_channel_def good_attempt_def attempt_transfer_def Let_def)
  have four: "(1::int) \<le> 4" and one: "(1::int) \<le> 1" by simp_all
  have up4: "[1..4::int] = [1, 2, 3, 4]" and up3: "[1..3::int] = [1, 2, 3]"
    by (simp_all add: upto_rec1)
  from secure_transfer_backoff [OF four fails, of fresh_session]
       secure_transfer_backoff [OF one fails, of fresh_session]
  show ?thesis
    by (simp add: fresh_session_def up4 up3)
qed

section \<open>Capability index of constant samples\<close>

text \<open>
  C3. For constant samples the standard deviation is zero and \<open>calculate_cpk\<close> divides
  by it: the result is an infinity or not-a-number, never the 0.0 that is asked for. For
  the samples \<open>[50, 50]\<close> and the limits 100 and 10 it is plus infinity.
\<close>

theorem calculate_cpk_zero_std: "np_std [50, 50] = 0 \<and> calculate_cpk [50, 50] 100 10 = PosInf"
  by (simp add: calculate_cpk_def np_std_def np_mean_def np_div_def py_min_def)

section \<open>Duration and throughput of a record\<close>

text \<open>
  C4. When \<open>secure_transfer\<close> returns \<open>True\<close>, it has appended one record, made by the
  first attempt \<open>k\<close> that did not fail. The clock is read before the local file is hashed,
  so \<open>duration_sec\<close> is the time of hashing plus the time of \<open>put\<close> in attempt \<open>k\<close>, and
  nothing else: no time of an earlier attempt, of a sleep, or of the remote checksum. It is
  not zero, and \<open>throughput_mbps = size_bytes * 8 / (duration_sec * 1000000)\<close>.
\<close>

theorem secure_transfer_duration:
  assumes "secure_transfer io local_path remote_path verify retries s = (Some True, s')"
  shows "\<exists>k m. 1 \<le> k \<and> k \<le> retries \<and>
           (\<forall>j. 1 \<le> j \<and> j < k \<longrightarrow>
                isl (fst (attempt_transfer (io j) local_path remote_path verify s))) \<and>
           fst (attempt_transfer (io k) local_path remote_path verify s) = Inr () \<and>
           metrics s' = metrics s @ [m] \<and>
           duration_sec m = hash_secs (io k) + put_secs (io k) \<and>
           duration_sec m \<noteq> 0 \<and>
           st_size (io k) = Some (size_bytes m) \<and>
           throughput_mbps m = real_of_int (size_bytes m * 8) / (duration_sec m * 1000000)"
proof -
  from transfer_loop_success [OF assms [unfolded secure_transfer_def]]
  obtain k h n where k: "1 \<le> k" "k \<le> retries"
    and before: "\<forall>j. 1 \<le> j \<and> j < k \<longrightarrow>
                isl (fst (attempt_transfer (io j) local_path remote_path verify s))"
    and ok: "fst (attempt_transfer (io k) local_path remote_path verify s) = Inr ()"
    and sz: "st_size (io k) = Some n" and nz: "hash_secs (io k) + put_secs (io k) \<noteq> 0"
    and ms: "metrics s' = metrics s @
         [\<lparr>filename = local_path, size_bytes = n,
           duration_sec = hash_secs (io k) + put_secs (io k),
           throughput_mbps =
             real_of_int (n * 8) / ((hash_secs (io k) + put_secs (io k)) * 1000000),
           sha256_checksum = h, timestamp = strftime_now (io k)\<rparr>]"
    by blast
  let ?m = "\<lparr>filename = local_path, size_bytes = n,
           duration_sec = hash_secs (io k) + put_secs (io k),
           throughput_mbps =
             real_of_int (n * 8) / ((hash_secs (io k) + put_secs (io k)) * 1000000),
           sha256_checksum = h, timestamp = strftime_now (io k)\<rparr>"
  show ?thesis
    using k before ok sz nz ms
    by (intro exI [of _ k] exI [of _ ?m]) simp
qed

theorem secure_transfer_duration_witness:
  "fst (secure_transfer second_try_channel ''a'' ''b'' True 3 fresh_session) = Some True \<and>
   (\<exists>m. metrics (snd (secure_transfer second_try_channel ''a'' ''b'' True 3 fresh_session)) =
          metrics fresh_session @ [m] \<and>
        duration_sec m = 2 \<and>
        throughput_mbps m = real_of_int (size_bytes m * 8) / (2 * 1000000))"
proof -
  let ?run = "secure_transfer second_try_channel ''a'' ''b'' True 3 fresh_session"
  have ok: "fst ?run = Some True"
    by (simp add: secure_transfer_def second_try_channel_def good_attempt_def fresh_session_def
         attempt_transfer_def Let_def upto_rec1)
  then have run: "?run = (Some True, snd ?run)"
    by (metis prod.collapse)
  from secure_transfer_duration [OF run]
  obtain k m where k: "1 \<le> k"
    and won: "fst (attempt_transfer (second_try_channel k) ''a'' ''b'' True fresh_session) = Inr ()"
    and ms: "metrics (snd ?run) = metrics fresh_session @ [m]"
    and dur: "duration_sec m = hash_secs (second_try_channel k) + put_secs (second_try_channel k)"
    and thr: "throughput_mbps m = real_of_int (size_bytes m * 8) / (duration_sec m * 1000000)"
    by blast
  have "\<not> k < 2"
    using won
    by (auto simp: second_try_channel_def good_attempt_def attempt_transfer_def Let_def)
  then have "duration_sec m = 2"
    using dur by (simp add: second_try_channel_def good_attempt_def)
  with ok ms thr show ?thesis by auto
qed

text \<open>
  Measuring \<open>put\<close> alone fails where hashing takes time: hashing and \<open>put\<close> take one
  second each in the second attempt, and the record says two seconds and 4 Mbps.
\<close>

theorem secure_transfer_duration_counterexample:
  "fst (secure_transfer second_try_channel ''a'' ''b'' True 3 fresh_session) = Some True \<and>
   map duration_sec
     (metrics (snd (secure_transfer second_try_channel ''a'' ''b'' True 3 fresh_session))) = [2] \<and>
   map throughput_mbps
     (metrics (snd (secure_transfer second_try_channel ''a'' ''b'' True 3 fresh_session))) = [4] \<and>
   hash_secs (second_try_channel 2) = 1 \<and>
   put_secs (second_try_channel 2) = 1 \<and>
   duration_sec
     (last (metrics (snd (secure_transfer second_try_channel ''a'' ''b'' True 3 fresh_session))))
     \<noteq> put_secs (second_try_channel 2)"
  by (simp add: secure_transfer_def second_try_channel_def good_attempt_def fresh_session_def
       attempt_transfer_def Let_def upto_rec1)

section \<open>The quality report\<close>

text \<open>
  C5. \<open>generate_quality_report\<close> returns the empty report exactly when there is no
  record. With at least one record the report is populated: the mean and standard
  deviation of the recorded throughputs, \<open>calculate_cpk(100, 10)\<close> and
  \<open>calculate_sigma_level()\<close> of them, and the records in order. With exactly one record
  the standard deviation is 0 and both indices are the sentinel 0.0.
\<close>

theorem generate_quality_report_records:
  "(generate_quality_report ppf s = PyDict [] \<longleftrightarrow> metrics s = []) \<and>
   (metrics s \<noteq> [] \<longrightarrow>
      generate_quality_report ppf s =
        PyDict [(''throughput_stats'',
                 PyDict [(''mean'', PyFloat (Fin (np_mean (map throughput_mbps (metrics s))))),
                         (''std_dev'', PyFloat (Fin (np_std (map throughput_mbps (metrics s))))),
                         (''cpk'', PyFloat (calculate_cpk (map throughput_mbps (metrics s)) 100 10)),
                         (''sigma_level'',
                          PyFloat (calculate_sigma_level ppf (map throughput_mbps (metrics s))))]),
                (''transfer_metrics'', PyList (map vars (metrics s)))]) \<and>
   (\<forall>m. metrics s = [m] \<longrightarrow>
      generate_quality_report ppf s =
        PyDict [(''throughput_stats'',
                 PyDict [(''mean'', PyFloat (Fin (throughput_mbps m))),
                         (''std_dev'', PyFloat (Fin 0)),
                         (''cpk'', PyFloat (Fin 0)),
                         (''sigma_level'', PyFloat (Fin 0))]),
                (''transfer_metrics'', PyList [vars m])])"
proof -
  have single: "np_mean [x] = x" "np_std [x] = 0" for x
    by (simp_all add: np_std_def np_mean_def)
  have short: "calculate_cpk [x] 100 10 = Fin 0" "calculate_sigma_level ppf [x] = Fin 0" for x
    by (simp_all add: calculate_cpk_def calculate_sigma_level_def)
  have empty: "generate_quality_report ppf s = PyDict [] \<longleftrightarrow> metrics s = []"
    by (simp add: generate_quality_report_def Let_def)
  have full: "generate_quality_report ppf s =
        PyDict [(''throughput_stats'',
                 PyDict [(''mean'', PyFloat (Fin (np_mean (map throughput_mbps (metrics s))))),
                         (''std_dev'', PyFloat (Fin (np_std (map throughput_mbps (metrics s))))),
                         (''cpk'', PyFloat (calculate_cpk (map throughput_mbps (metrics s)) 100 10)),
                         (''sigma_level'',
                          PyFloat (calculate_sigma_level ppf (map throughput_mbps (metrics s))))]),
                (''transfer_metrics'', PyList (map vars (metrics s)))]"
    if "metrics s \<noteq> []"
    using that by (simp add: generate_quality_report_def Let_def)
  have one: "generate_quality_report ppf s =
        PyDict [(''throughput_stats'',
                 PyDict [(''mean'', PyFloat (Fin (throughput_mbps m))),
                         (''std_dev'', PyFloat (Fin 0)),
                         (''cpk'', PyFloat (Fin 0)),
                         (''sigma_level'', PyFloat (Fin 0))]),
                (''transfer_metrics'', PyList [vars m])]"
    if "metrics s = [m]" for m
    using that by (simp add: generate_quality_report_def Let_def single short)
  from empty full one show ?thesis by blast
qed

theorem generate_quality_report_records_witness:
  "generate_quality_report linear_ppf fresh_session = PyDict [] \<and>
   generate_quality_report linear_ppf one_record_session =
     PyDict [(''throughput_stats'',
              PyDict [(''mean'', PyFloat (Fin 4)),
                      (''std_dev'', PyFloat (Fin 0)),
                      (''cpk'', PyFloat (Fin 0)),
                      (''sigma_level'', PyFloat (Fin 0))]),
             (''transfer_metrics'',
              PyList [PyDict [(''filename'', PyStr ''a''),
                              (''size_bytes'', PyInt 1000000),
                              (''duration_sec'', PyFloat (Fin 2)),
                              (''throughput_mbps'', PyFloat (Fin 4)),
                              (''sha256_checksum'', PyStr ''ab12''),
                              (''timestamp'', PyStr ''2024-01-01 00:00:00'')]])]"
proof -
  let ?m = "\<lparr>filename = ''a'', size_bytes = 1000000, duration_sec = 2,
             throughput_mbps = 4, sha256_checksum = ''ab12'',
             timestamp = ''2024-01-01 00:00:00''\<rparr>"
  have none: "metrics fresh_session = []"
    by (simp add: fresh_session_def)
  have one: "metrics one_record_session = [?m]"
    by (simp add: one_record_session_def)
  from generate_quality_report_records [of linear_ppf fresh_session] none
  have a: "generate_quality_report linear_ppf fresh_session = PyDict []"
    by simp
  from generate_quality_report_records [of linear_ppf one_record_session] one
  have "generate_quality_report linear_ppf one_record_session =
        PyDict [(''throughput_stats'',
                 PyDict [(''mean'', PyFloat (Fin (throughput_mbps ?m))),
                         (''std_dev'', PyFloat (Fin 0)),
                         (''cpk'', PyFloat (Fin 0)),
                         (''sigma_level'', PyFloat (Fin 0))]),
                (''transfer_metrics'', PyList [vars ?m])]"
    by blast
  with a show ?thesis
    by (simp add: vars_def)
qed

text \<open>With one record, fewer than two, the report is not empty.\<close>

theorem generate_quality_report_counterexample:
  "length (metrics one_record_session) < 2 \<and>
   generate_quality_report linear_ppf one_record_session \<noteq> PyDict []"
  by (simp add: generate_quality_report_def one_record_session_def Let_def)

section \<open>Sigma level\<close>

text \<open>
  C6. A sample is a defect when it is strictly less than 10. With at least two samples
  \<open>calculate_sigma_level\<close> returns 0.0 when the defect rate is at least 1, and otherwise
  \<open>ppf (1 - defect_rate) + 1.5\<close>. For the samples \<open>[5, 8, 12, 9, 11]\<close> the defects are
  \<open>5, 8, 9\<close>, the rate is 0.6 and the result is \<open>ppf 0.4 + 1.5\<close>, which is within 0.001 of
  1.247 for a quantile function whose value at 0.4 is within 0.0001 of -0.2533.
\<close>

theorem calculate_sigma_level_formula:
  "defects data = int (length (filter (\<lambda>x. x < 10) data)) \<and>
   defect_rate data = real (length (filter (\<lambda>x. x < 10) data)) / real (length data) \<and>
   (2 \<le> length data \<longrightarrow>
      calculate_sigma_level ppf data =
        (if 1 \<le> defect_rate data then Fin 0
         else float_add (ppf (1 - defect_rate data)) (3 / 2))) \<and>
   filter (\<lambda>x. x < 10) [5, 8, 12, 9, 11 :: real] = [5, 8, 9] \<and>
   defect_rate [5, 8, 12, 9, 11] = 6 / 10 \<and>
   calculate_sigma_level ppf [5, 8, 12, 9, 11] = float_add (ppf (4 / 10)) (3 / 2) \<and>
   (\<forall>v. ppf (4 / 10) = Fin v \<and> \<bar>v - (- 2533 / 10000)\<bar> \<le> 1 / 10000 \<longrightarrow>
        (\<exists>r. calculate_sigma_level ppf [5, 8, 12, 9, 11] = Fin r \<and>
             \<bar>r - 1247 / 1000\<bar> \<le> 1 / 1000))"
proof -
  have rate: "defect_rate [5, 8, 12, 9, 11] = 6 / 10"
    by (simp add: defect_rate_def defects_def)
  have val: "calculate_sigma_level ppf [5, 8, 12, 9, 11] = float_add (ppf (4 / 10)) (3 / 2)"
    by (simp add: calculate_sigma_level_rate rate)
  have approx: "\<exists>r. calculate_sigma_level ppf [5, 8, 12, 9, 11] = Fin r \<and>
             \<bar>r - 1247 / 1000\<bar> \<le> 1 / 1000"
    if "ppf (4 / 10) = Fin v \<and> \<bar>v - (- 2533 / 10000)\<bar> \<le> 1 / 10000" for v
  proof -
    from that have "\<bar>v + 3 / 2 - 1247 / 1000\<bar> \<le> 1 / 1000" by linarith
    with that show ?thesis by (simp add: val)
  qed
  show ?thesis
    using rate val approx
    by (simp add: defects_count defect_rate_def calculate_sigma_level_rate del: of_nat_less_iff)
qed

theorem calculate_sigma_level_formula_witness:
  "linear_ppf (4 / 10) = Fin (- 2533471 / 10000000) \<and>
   \<bar>- 2533471 / 10000000 - (- 2533 / 10000 :: real)\<bar> \<le> 1 / 10000 \<and>
   (\<exists>r. calculate_sigma_level linear_ppf [5, 8, 12, 9, 11] = Fin r \<and>
        \<bar>r - 1247 / 1000\<bar> \<le> 1 / 1000) \<and>
   calculate_sigma_level linear_ppf [5, 8, 12, 9, 11] = Fin (12466529 / 10000000) \<and>
   calculate_sigma_level linear_ppf [5, 9] = Fin 0 \<and>
   calculate_sigma_level linear_ppf [10, 10] = PosInf"
proof -
  have r1: "defect_rate [5, 9] = 1" and r2: "defect_rate [10, 10] = 0"
    by (simp_all add: defect_rate_def defects_def)
  have v: "linear_ppf (4 / 10) = Fin (- 2533471 / 10000000)"
    by (simp add: linear_ppf_def)
  have near: "\<bar>- 2533471 / 10000000 - (- 2533 / 10000 :: real)\<bar> \<le> 1 / 10000"
    by simp
  from calculate_sigma_level_formula [of "[5, 9]" linear_ppf] v near
  have approx: "\<exists>r. calculate_sigma_level linear_ppf [5, 8, 12, 9, 11] = Fin r \<and>
        \<bar>r - 1247 / 1000\<bar> \<le> 1 / 1000"
    by blast
  from calculate_sigma_level_formula [of "[5, 9]" linear_ppf]
    calculate_sigma_level_formula [of "[10, 10]" linear_ppf]
  have "calculate_sigma_level linear_ppf [5, 8, 12, 9, 11] = Fin (12466529 / 10000000) \<and>
    calculate_sigma_level linear_ppf [5, 9] = Fin 0 \<and>
    calculate_sigma_level linear_ppf [10, 10] = PosInf"
    by (simp add: r1 r2 linear_ppf_def)
  with v near approx show ?thesis by blast
qed

section \<open>Capability index\<close>

text \<open>
  C7. With fewer than two samples \<open>calculate_cpk\<close> returns the sentinel 0.0. With at
  least two samples and a positive standard deviation it returns the smaller of
  \<open>(usl - mean) / (3 * std)\<close> and \<open>(mean - lsl) / (3 * std)\<close>, for all limits, where \<open>std\<close>
  is the population standard deviation (divisor \<open>N\<close>).
\<close>

theorem calculate_cpk_formula:
  "(length data < 2 \<longrightarrow> calculate_cpk data usl lsl = Fin 0) \<and>
   (2 \<le> length data \<and> 0 < np_std data \<longrightarrow>
      calculate_cpk data usl lsl =
        Fin (min ((usl - np_mean data) / (3 * np_std data))
                 ((np_mean data - lsl) / (3 * np_std data)))) \<and>
   np_std data = sqrt ((\<Sum>x \<leftarrow> data. (x - np_mean data)\<^sup>2) / real (length data))"
  by (auto simp: calculate_cpk_def np_div_def py_min_def Let_def min_def np_std_population)

theorem calculate_cpk_formula_witness:
  "calculate_cpk [] 100 10 = Fin 0 \<and>
   calculate_cpk [7] 100 10 = Fin 0 \<and>
   np_std [49, 51] = 1 \<and>
   calculate_cpk [49, 51] 100 10 = Fin (40 / 3) \<and>
   calculate_cpk [1, 3] 100 10 = Fin (- (8 / 3))"
proof -
  have s1: "np_std [49, 51] = 1" and m1: "np_mean [49, 51] = 50"
    by (simp_all add: np_std_def np_mean_def)
  have s2: "np_std [1, 3] = 1" and m2: "np_mean [1, 3] = 2"
    by (simp_all add: np_std_def np_mean_def)
  from calculate_cpk_formula [of "[]" 100 10] calculate_cpk_formula [of "[7]" 100 10]
    calculate_cpk_formula [of "[49, 51]" 100 10] calculate_cpk_formula [of "[1, 3]" 100 10]
  show ?thesis
    by (simp add: s1 m1 s2 m2)
qed

section \<open>Control chart limits\<close>

text \<open>
  C8. With fewer than two samples \<open>control_chart\<close> returns the empty dictionary. With at
  least two it returns exactly the three keys \<open>mean\<close>, \<open>upper_control_limit\<close> and
  \<open>lower_control_limit\<close>, with the values \<open>mean\<close>, \<open>mean + 3 * std\<close> and \<open>mean - 3 * std\<close>,
  where \<open>std\<close> is the population standard deviation.
\<close>

theorem control_chart_limits:
  "(length data < 2 \<longrightarrow> control_chart data = Map.empty) \<and>
   (2 \<le> length data \<longrightarrow>
      control_chart data ''mean'' = Some (np_mean data) \<and>
      control_chart data ''upper_control_limit'' = Some (np_mean data + 3 * np_std data) \<and>
      control_chart data ''lower_control_limit'' = Some (np_mean data - 3 * np_std data) \<and>
      dom (control_chart data) = {''mean'', ''upper_control_limit'', ''lower_control_limit''}) \<and>
   np_std data = sqrt ((\<Sum>x \<leftarrow> data. (x - np_mean data)\<^sup>2) / real (length data))"
  by (auto simp: control_chart_def Let_def np_std_population)

theorem control_chart_limits_witness:
  "control_chart [7] = Map.empty \<and> control_chart [] = Map.empty \<and>
   control_chart [1, 3] ''mean'' = Some 2 \<and>
   control_chart [1, 3] ''upper_control_limit'' = Some 5 \<and>
   control_chart [1, 3] ''lower_control_limit'' = Some (- 1)"
  using control_chart_limits [of "[7]"] control_chart_limits [of "[]"]
    control_chart_limits [of "[1, 3]"]
  by (simp add: np_mean_def)

section \<open>Sigma level against the defect rate\<close>

text \<open>
  C9. For two sample sequences of at least two samples with defect rates
  \<open>p1 <= p2 < 1\<close>, the sigma level of the second is at most that of the first, for every
  quantile function that is non-decreasing on \<open>(0, 1]\<close>. At defect rate 1 the result is
  0.0, and it is 0.0 at no other rate unless the quantile function takes the value -1.5
  there.
\<close>

theorem calculate_sigma_level_antimono:
  "(2 \<le> length d1 \<and> 2 \<le> length d2 \<and>
    defect_rate d1 \<le> defect_rate d2 \<and> defect_rate d2 < 1 \<and>
    (\<forall>a b. 0 < a \<and> a \<le> b \<and> b \<le> 1 \<longrightarrow> float_le (ppf a) (ppf b)) \<longrightarrow>
      float_le (calculate_sigma_level ppf d2) (calculate_sigma_level ppf d1)) \<and>
   (2 \<le> length d \<and> defect_rate d = 1 \<longrightarrow> calculate_sigma_level ppf d = Fin 0) \<and>
   (2 \<le> length d \<and> ppf (1 - defect_rate d) \<noteq> Fin (- (3 / 2)) \<and>
    calculate_sigma_level ppf d = Fin 0 \<longrightarrow> defect_rate d = 1)"
proof (intro conjI impI)
  assume a: "2 \<le> length d1 \<and> 2 \<le> length d2 \<and>
    defect_rate d1 \<le> defect_rate d2 \<and> defect_rate d2 < 1 \<and>
    (\<forall>a b. 0 < a \<and> a \<le> b \<and> b \<le> 1 \<longrightarrow> float_le (ppf a) (ppf b))"
  then have "0 < 1 - defect_rate d2 \<and> 1 - defect_rate d2 \<le> 1 - defect_rate d1 \<and>
      1 - defect_rate d1 \<le> 1"
    using defect_rate_bounds [of d1] by simp
  with a have "float_le (ppf (1 - defect_rate d2)) (ppf (1 - defect_rate d1))"
    by blast
  then show "float_le (calculate_sigma_level ppf d2) (calculate_sigma_level ppf d1)"
    using a by (simp add: calculate_sigma_level_rate float_add_mono)
next
  assume "2 \<le> length d \<and> defect_rate d = 1"
  then show "calculate_sigma_level ppf d = Fin 0"
    by (simp add: calculate_sigma_level_rate)
next
  assume a: "2 \<le> length d \<and> ppf (1 - defect_rate d) \<noteq> Fin (- (3 / 2)) \<and>
    calculate_sigma_level ppf d = Fin 0"
  then have len: "\<not> length d < 2" and ne: "ppf (1 - defect_rate d) \<noteq> Fin (- (3 / 2))"
    and zero: "calculate_sigma_level ppf d = Fin 0"
    by simp_all
  show "defect_rate d = 1"
  proof (rule ccontr)
    assume "defect_rate d \<noteq> 1"
    with defect_rate_bounds [of d] have "\<not> 1 \<le> defect_rate d" by simp
    with len zero have "float_add (ppf (1 - defect_rate d)) (3 / 2) = Fin 0"
      by (simp add: calculate_sigma_level_rate)
    then have "ppf (1 - defect_rate d) = Fin (- (3 / 2))"
      by (simp add: float_add_eq_Fin)
    with ne show False by simp
  qed
qed

theorem calculate_sigma_level_antimono_witness:
  "float_le (calculate_sigma_level linear_ppf [5, 20]) (calculate_sigma_level linear_ppf [20, 20]) \<and>
   float_le (calculate_sigma_level linear_ppf [5, 8, 12, 9, 11])
            (calculate_sigma_level linear_ppf [5, 20]) \<and>
   calculate_sigma_level linear_ppf [5, 5] = Fin 0 \<and>
   defect_rate [5, 5] = 1"
proof -
  have r: "defect_rate [5, 20] = 1 / 2" "defect_rate [20, 20] = 0" "defect_rate [5, 5] = 1"
    "defect_rate [5, 8, 12, 9, 11] = 6 / 10"
    by (simp_all add: defect_rate_def defects_def)
  have mono: "\<forall>a b. 0 < a \<and> a \<le> b \<and> b \<le> 1 \<longrightarrow> float_le (linear_ppf a) (linear_ppf b)"
    using linear_ppf_mono by blast
  have zero: "calculate_sigma_level linear_ppf [5, 5] = Fin 0"
    by (simp add: calculate_sigma_level_rate r)
  have ne: "linear_ppf (1 - defect_rate [5, 5]) \<noteq> Fin (- (3 / 2))"
    by (simp add: r linear_ppf_def)
  from calculate_sigma_level_antimono [of "[20, 20]" "[5, 20]" linear_ppf "[5, 5]"]
    calculate_sigma_level_antimono [of "[5, 20]" "[5, 8, 12, 9, 11]" linear_ppf "[5, 5]"]
    mono zero ne
  show ?thesis
    by (simp add: r)
qed

section \<open>No attempt allowed\<close>

text \<open>
  C10. Called with \<open>retries <= 0\<close>, \<open>secure_transfer\<close> runs no attempt: it returns
  \<open>None\<close> and leaves the session as it was, with no record appended. Called with
  \<open>retries >= 1\<close> it returns a boolean.
\<close>

theorem secure_transfer_no_attempts:
  "(retries \<le> 0 \<longrightarrow>
      secure_transfer io local_path remote_path verify retries s = (None, s)) \<and>
   (1 \<le> retries \<longrightarrow>
      fst (secure_transfer io local_path remote_path verify retries s) \<noteq> None)"
  using transfer_loop_returns [of 1 retries io local_path remote_path verify s]
  by (simp add: secure_transfer_def)

theorem secure_transfer_no_attempts_witness:
  "secure_transfer dead_channel ''a'' ''b'' True 0 one_record_session = (None, one_record_session) \<and>
   secure_transfer second_try_channel ''a'' ''b'' False (- 2) fresh_session = (None, fresh_session) \<and>
   fst (secure_transfer dead_channel ''a'' ''b'' True 1 fresh_session) \<noteq> None"
  using secure_transfer_no_attempts [of 0 dead_channel "''a''" "''b''" True one_record_session]
    secure_transfer_no_attempts [of "- 2" second_try_channel "''a''" "''b''" False fresh_session]
    secure_transfer_no_attempts [of 1 dead_channel "''a''" "''b''" True fresh_session]
  by simp

end
